theory Spec2Isabelle
  imports Complex_Main "HOL-Library.Multiset" "HOL-Library.Log_Nat"
begin

section \<open>Numbers of the dashboard\<close>

text \<open>
  The columns of the data frame and the scalars of the simulation tab are double precision
  floats. A double is one of: a finite number, given by its exact value (\<open>Fin 0\<close> is the
  positive zero), the negative zero, plus infinity, minus infinity, NaN. An operation
  computes the exact result and rounds it to the nearest double, as the hardware does.
\<close>

datatype fnum = Fin real | NZero | PInf | NInf | NaN

text \<open>Rounding to the nearest integer, a tie going to the even one (\<^verbatim>\<open>rint\<close>).\<close>

definition rint :: "real \<Rightarrow> int" where
  "rint x =
     (let f = \<lfloor>x\<rfloor>; d = x - of_int f
      in if d < 1 / 2 then f
         else if d > 1 / 2 then f + 1
         else if even f then f else f + 1)"

text \<open>
  Rounding of a real to a double: \<open>expo x\<close> is the binary exponent of \<open>x\<close>, the \<open>e\<close> with
  \<open>2 ^ e \<le> \<bar>x\<bar> < 2 ^ (e + 1)\<close>; a double has 53 significant bits, so its last bit is
  worth \<open>2 ^ (e - 52)\<close>, and no less than \<open>2 ^ - 1074\<close>, the least subnormal number. \<open>fl x\<close>
  is the multiple of that unit nearest to \<open>x\<close>, a tie going to the even multiple.
\<close>

definition pow2 :: "int \<Rightarrow> real" where
  "pow2 e = (if 0 \<le> e then 2 ^ nat e else 1 / 2 ^ nat (- e))"

definition expo :: "real \<Rightarrow> int" where
  "expo x =
     (if 1 \<le> \<bar>x\<bar> then bitlen \<lfloor>\<bar>x\<bar>\<rfloor> - 1
      else - bitlen (\<lceil>1 / \<bar>x\<bar>\<rceil> - 1))"

definition fl :: "real \<Rightarrow> real" where
  "fl x = (let u = pow2 (max (expo x) (- 1022) - 52) in of_int (rint (x / u)) * u)"

text \<open>
  The double an exact result \<open>x\<close> is rounded to: an infinity when the rounded magnitude
  reaches \<open>2 ^ 1024\<close>, a zero of the sign of \<open>x\<close> when it vanishes.
\<close>

definition round_dbl :: "real \<Rightarrow> fnum" where
  "round_dbl x =
     (let r = fl x
      in if 2 ^ 1024 \<le> \<bar>r\<bar> then (if 0 < x then PInf else NInf)
         else if r = 0 then (if 0 \<le> x then Fin 0 else NZero)
         else Fin r)"

fun is_zero :: "fnum \<Rightarrow> bool" where
  "is_zero (Fin a) = (a = 0)"
| "is_zero NZero = True"
| "is_zero x = False"

fun is_inf :: "fnum \<Rightarrow> bool" where
  "is_inf PInf = True"
| "is_inf NInf = True"
| "is_inf x = False"

fun is_fin :: "fnum \<Rightarrow> bool" where
  "is_fin (Fin a) = True"
| "is_fin NZero = True"
| "is_fin x = False"

text \<open>The sign bit, and the value of a finite double.\<close>

fun sign_neg :: "fnum \<Rightarrow> bool" where
  "sign_neg (Fin a) = (a < 0)"
| "sign_neg NZero = True"
| "sign_neg NInf = True"
| "sign_neg x = False"

fun fval :: "fnum \<Rightarrow> real" where
  "fval (Fin a) = a"
| "fval x = 0"

definition signed_inf :: "bool \<Rightarrow> fnum" where
  "signed_inf neg = (if neg then NInf else PInf)"

definition signed_zero :: "bool \<Rightarrow> fnum" where
  "signed_zero neg = (if neg then NZero else Fin 0)"

text \<open>
  Division \<^verbatim>\<open>x / y\<close> of doubles. On columns, as in
  \<^verbatim>\<open>df['stok_tersedia'] / df['konsumsi_per_jam']\<close>, nothing is raised on a zero divisor: a
  number that is not zero over a zero is an infinity whose sign is the product of the two
  signs, and zero over zero is NaN.
\<close>

definition fdiv :: "fnum \<Rightarrow> fnum \<Rightarrow> fnum" where
  "fdiv x y =
     (if x = NaN \<or> y = NaN then NaN
      else if is_inf x \<and> is_inf y then NaN
      else if is_zero x \<and> is_zero y then NaN
      else if is_inf x \<or> is_zero y then signed_inf (sign_neg x \<noteq> sign_neg y)
      else if is_inf y \<or> is_zero x then signed_zero (sign_neg x \<noteq> sign_neg y)
      else round_dbl (fval x / fval y))"

text \<open>Multiplication \<^verbatim>\<open>x * y\<close>.\<close>

definition fmul :: "fnum \<Rightarrow> fnum \<Rightarrow> fnum" where
  "fmul x y =
     (if x = NaN \<or> y = NaN then NaN
      else if (is_inf x \<and> is_zero y) \<or> (is_zero x \<and> is_inf y) then NaN
      else if is_inf x \<or> is_inf y then signed_inf (sign_neg x \<noteq> sign_neg y)
      else if is_zero x \<or> is_zero y then signed_zero (sign_neg x \<noteq> sign_neg y)
      else round_dbl (fval x * fval y))"

text \<open>
  Subtraction \<^verbatim>\<open>x - y\<close>. An exact difference of zero is the positive zero, except for
  the negative zero minus the positive one.
\<close>

definition fsub :: "fnum \<Rightarrow> fnum \<Rightarrow> fnum" where
  "fsub x y =
     (if x = NaN \<or> y = NaN then NaN
      else if is_inf x \<and> is_inf y then (if x = y then NaN else x)
      else if is_inf x then x
      else if is_inf y then signed_inf (\<not> sign_neg y)
      else if fval x - fval y = 0 then signed_zero (x = NZero \<and> y \<noteq> NZero)
      else round_dbl (fval x - fval y))"

text \<open>\<^verbatim>\<open>rint\<close> on a double; a result of zero keeps the sign of the argument.\<close>

definition frint :: "fnum \<Rightarrow> fnum" where
  "frint x =
     (case x of
        Fin a \<Rightarrow> (if rint a = 0 then signed_zero (a < 0) else Fin (of_int (rint a)))
      | _ \<Rightarrow> x)"

text \<open>
  \<^verbatim>\<open>DataFrame.round(1)\<close> on a float column is numpy's \<^verbatim>\<open>round\<close>: the number is
  multiplied by \<^verbatim>\<open>10.0\<close>, rounded with \<^verbatim>\<open>rint\<close> and divided by \<^verbatim>\<open>10.0\<close>, each step
  in double arithmetic.
\<close>

definition round1 :: "fnum \<Rightarrow> fnum" where
  "round1 x = fdiv (frint (fmul x (Fin 10))) (Fin 10)"

text \<open>The comparison \<^verbatim>\<open>x <= 0\<close>; every comparison with NaN is false.\<close>

fun fle0 :: "fnum \<Rightarrow> bool" where
  "fle0 (Fin a) = (a \<le> 0)"
| "fle0 NZero = True"
| "fle0 PInf = False"
| "fle0 NInf = True"
| "fle0 NaN = False"

text \<open>The comparison \<^verbatim>\<open>x > 0\<close>, in which the claims state their hypothesis.\<close>

fun fgt0 :: "fnum \<Rightarrow> bool" where
  "fgt0 (Fin a) = (a > 0)"
| "fgt0 NZero = False"
| "fgt0 PInf = True"
| "fgt0 NInf = False"
| "fgt0 NaN = False"

text \<open>The comparison \<^verbatim>\<open>x < 0\<close>: used for the sign of the depletion time.\<close>

fun fneg :: "fnum \<Rightarrow> bool" where
  "fneg (Fin a) = (a < 0)"
| "fneg NZero = False"
| "fneg PInf = False"
| "fneg NInf = True"
| "fneg NaN = False"

section \<open>Rows and the classifier\<close>

text \<open>
  A row of \<^verbatim>\<open>df_raw\<close>, with the columns the dashboard reads. The numeric columns hold
  doubles of any kind.
\<close>

record df_row =
  tanggal :: string
  seksi_tujuan :: string
  nama_komponen :: string
  stok_tersedia :: fnum
  konsumsi_per_jam :: fnum
  lead_time :: fnum

text \<open>The same row once \<^verbatim>\<open>process_dashboard_data\<close> has added its two columns.\<close>

record dashboard_row = df_row +
  waktu_habis_stok :: fnum
  selisih_waktu :: fnum

text \<open>A row of the table that \<^verbatim>\<open>process_dashboard_data\<close> returns, columns renamed.\<close>

record result_row =
  Tanggal :: string
  Seksi_Tujuan :: string
  Nama_Komponen :: string
  Status :: string
  Stok :: fnum
  Sisa_Waktu_Jam :: fnum
  Lead_Time_Jam :: fnum
  Buffer_Waktu_Jam :: fnum

text \<open>
  The one-row frame handed to \<^verbatim>\<open>model.predict\<close>: section, component, stock and
  lead time.
\<close>

type_synonym input_data = "string \<times> string \<times> fnum \<times> fnum"

text \<open>
  \<^verbatim>\<open>model.predict(input_data)[0]\<close> either yields a label or raises. The loaded model
  is opaque, so it is a parameter: a function of its own state \<open>'s\<close> (whatever the model
  object or a test stub keeps between calls) and the input, returning the label or the
  exception together with the new state. A call that does not happen leaves the state
  untouched, whatever the model is.
\<close>

datatype error = ClassifierError string

type_synonym 's model = "'s \<Rightarrow> input_data \<Rightarrow> (error + string) \<times> 's"

section \<open>\<^verbatim>\<open>process_dashboard_data\<close>\<close>

text \<open>
  The first two assignments of the function: \<^verbatim>\<open>waktu_habis_stok\<close> is the stock over
  the consumption per hour, \<^verbatim>\<open>selisih_waktu\<close> is that minus the lead time. The division
  has no guard against a consumption of zero.
\<close>

definition add_columns :: "df_row \<Rightarrow> dashboard_row" where
  "add_columns r =
     (let w = fdiv (stok_tersedia r) (konsumsi_per_jam r)
      in df_row.extend r
           (dashboard_row.fields w (fsub w (lead_time r))))"

text \<open>The nested function \<^verbatim>\<open>get_status(row)\<close>; it has no exception handler.\<close>

definition get_status :: "'s model \<Rightarrow> 's \<Rightarrow> dashboard_row \<Rightarrow> (error + string) \<times> 's" where
  "get_status model s row =
     (if fle0 (selisih_waktu row) then (Inr ''Merah'', s)
      else
        (case model s (seksi_tujuan row, nama_komponen row, stok_tersedia row, lead_time row) of
           (Inl e, s') \<Rightarrow> (Inl e, s')
         | (Inr pred, s') \<Rightarrow> (Inr (if pred = ''Merah'' then ''Kuning'' else pred), s')))"

text \<open>
  \<^verbatim>\<open>dashboard_df.apply(get_status, axis=1)\<close>: the rows are visited in order, and an
  exception raised for one row leaves \<^verbatim>\<open>apply\<close> at once.
\<close>

fun apply_get_status :: "'s model \<Rightarrow> 's \<Rightarrow> dashboard_row list \<Rightarrow> (error + string list) \<times> 's" where
  "apply_get_status model s [] = (Inr [], s)"
| "apply_get_status model s (row # rows) =
     (case get_status model s row of
        (Inl e, s') \<Rightarrow> (Inl e, s')
      | (Inr st, s') \<Rightarrow>
          (case apply_get_status model s' rows of
             (Inl e, s'') \<Rightarrow> (Inl e, s'')
           | (Inr sts, s'') \<Rightarrow> (Inr (st # sts), s'')))"

text \<open>Selection and renaming of the columns, then \<^verbatim>\<open>round(1)\<close> on the numeric ones.\<close>

definition result_of :: "dashboard_row \<Rightarrow> string \<Rightarrow> result_row" where
  "result_of row st =
     \<lparr> Tanggal = tanggal row,
       Seksi_Tujuan = seksi_tujuan row,
       Nama_Komponen = nama_komponen row,
       Status = st,
       Stok = round1 (stok_tersedia row),
       Sisa_Waktu_Jam = round1 (waktu_habis_stok row),
       Lead_Time_Jam = round1 (lead_time row),
       Buffer_Waktu_Jam = round1 (selisih_waktu row) \<rparr>"

definition process_dashboard_data :: "df_row list \<Rightarrow> 's model \<Rightarrow> 's \<Rightarrow> (error + result_row list) \<times> 's" where
  "process_dashboard_data df model s =
     (let dashboard_df = map add_columns df
      in case apply_get_status model s dashboard_df of
           (Inl e, s') \<Rightarrow> (Inl e, s')
         | (Inr sts, s') \<Rightarrow> (Inr (map2 result_of dashboard_df sts), s'))"

section \<open>The simulation tab\<close>

text \<open>
  What the handler of the button computes: nothing when the pair of section and component
  is not in \<^verbatim>\<open>konsumsi_map\<close>, otherwise the depletion time, the buffer and the final
  label. The division is guarded here: a consumption that is not positive gives
  \<^verbatim>\<open>float('inf')\<close>.
\<close>

datatype analisis = TidakDitemukan | Hasil fnum fnum string

definition predict_button ::
  "'s model \<Rightarrow> (string \<times> string \<rightharpoonup> fnum) \<Rightarrow> 's \<Rightarrow> string \<Rightarrow> string \<Rightarrow> fnum \<Rightarrow> fnum
     \<Rightarrow> (error + analisis) \<times> 's" where
  "predict_button model konsumsi_map s selected_seksi selected_komponen input_stok input_lead_time =
     (case konsumsi_map (selected_seksi, selected_komponen) of
        None \<Rightarrow> (Inr TidakDitemukan, s)
      | Some konsumsi \<Rightarrow>
          (let waktu_habis = (if fgt0 konsumsi then fdiv input_stok konsumsi else PInf);
               selisih = fsub waktu_habis input_lead_time
           in if fle0 selisih then (Inr (Hasil waktu_habis selisih ''Merah''), s)
              else
                (case model s (selected_seksi, selected_komponen, input_stok, input_lead_time) of
                   (Inl e, s') \<Rightarrow> (Inl e, s')
                 | (Inr pred, s') \<Rightarrow>
                     (Inr (Hasil waktu_habis selisih
                             (if pred = ''Merah'' then ''Kuning'' else pred)), s'))))"

section \<open>Models and their outcomes\<close>

text \<open>
  A deterministic model: its answer depends on the input alone, not on the state it is
  called in.
\<close>

definition deterministic :: "'s model \<Rightarrow> bool" where
  "deterministic model \<longleftrightarrow> (\<forall>s t x. fst (model s x) = fst (model t x))"

text \<open>What \<^verbatim>\<open>get_status\<close> does to the outcome of the call of the model.\<close>

definition remap :: "error + string \<Rightarrow> error + string" where
  "remap r =
     (case r of
        Inl e \<Rightarrow> Inl e
      | Inr pred \<Rightarrow> Inr (if pred = ''Merah'' then ''Kuning'' else pred))"

section \<open>Stub classifiers\<close>

text \<open>
  Test doubles for the model. Their state is the number of calls received so far, so a
  result with an unchanged count shows that the model was not called.
\<close>

definition stub_raise :: "nat model" where
  "stub_raise n x = (Inl (ClassifierError ''unavailable''), Suc n)"

definition stub_const :: "string \<Rightarrow> nat model" where
  "stub_const l n x = (Inr l, Suc n)"

text \<open>
  A row as it is loaded from decimal numbers: each number becomes the double nearest
  to it.
\<close>

definition mk_row :: "string \<Rightarrow> real \<Rightarrow> real \<Rightarrow> real \<Rightarrow> df_row" where
  "mk_row k a c l =
     \<lparr> tanggal = ''2024-01-01'', seksi_tujuan = ''Assy'', nama_komponen = k,
       stok_tersedia = round_dbl a, konsumsi_per_jam = round_dbl c, lead_time = round_dbl l \<rparr>"

text \<open>A model that fails for one component and answers \<^verbatim>\<open>'Hijau'\<close> for the others.\<close>

definition stub_fail_on :: "string \<Rightarrow> nat model" where
  "stub_fail_on k n x =
     (if fst (snd x) = k then Inl (ClassifierError ''unavailable'') else Inr ''Hijau'', Suc n)"

section \<open>The sorted table of the first tab\<close>

text \<open>
  The column \<^verbatim>\<open>SortKey\<close>: \<^verbatim>\<open>Status.map({'Merah': 0, 'Kuning': 1, 'Hijau': 2})\<close>. A
  status that is not a key of the dictionary is mapped to NaN, here \<open>None\<close>.
\<close>

definition SortKey :: "string \<Rightarrow> nat option" where
  "SortKey st = map_of [(''Merah'', 0), (''Kuning'', 1), (''Hijau'', 2)] st"

text \<open>
  \<^verbatim>\<open>sort_values(by=['SortKey', 'Buffer Waktu (Jam)'])\<close> sorts in ascending order of the
  first column and, among equal values of it, of the second; in each column NaN comes
  last. The two orders on the columns (the two zeros are equal numbers):
\<close>

fun key_le :: "nat option \<Rightarrow> nat option \<Rightarrow> bool" where
  "key_le (Some a) (Some b) = (a \<le> b)"
| "key_le None (Some b) = False"
| "key_le k None = True"

fun fnum_le :: "fnum \<Rightarrow> fnum \<Rightarrow> bool" where
  "fnum_le x NaN = True"
| "fnum_le NaN y = False"
| "fnum_le NInf y = True"
| "fnum_le x NInf = False"
| "fnum_le x PInf = True"
| "fnum_le PInf y = False"
| "fnum_le x y = (fval x \<le> fval y)"

definition row_le :: "result_row \<Rightarrow> result_row \<Rightarrow> bool" where
  "row_le r1 r2 =
     (let k1 = SortKey (Status r1); k2 = SortKey (Status r2)
      in if k1 = k2 then fnum_le (Buffer_Waktu_Jam r1) (Buffer_Waktu_Jam r2)
         else key_le k1 k2)"

text \<open>The sort itself, as an insertion sort; only its result matters below.\<close>

fun insert_row :: "result_row \<Rightarrow> result_row list \<Rightarrow> result_row list" where
  "insert_row r [] = [r]"
| "insert_row r (x # xs) = (if row_le r x then r # x # xs else x # insert_row r xs)"

fun sort_values :: "result_row list \<Rightarrow> result_row list" where
  "sort_values [] = []"
| "sort_values (r # rs) = insert_row r (sort_values rs)"

text \<open>
  The table shown in the first tab: the rows whose status is among the selected ones
  (\<^verbatim>\<open>Status.isin(selected_statuses)\<close>), sorted.
\<close>

definition tab1_sorted :: "result_row list \<Rightarrow> string list \<Rightarrow> result_row list" where
  "tab1_sorted dashboard_data selected_statuses =
     (let filtered_dashboard = filter (\<lambda>r. Status r \<in> set selected_statuses) dashboard_data
      in sort_values filtered_dashboard)"

definition mk_result :: "string \<Rightarrow> string \<Rightarrow> fnum \<Rightarrow> result_row" where
  "mk_result k st b =
     \<lparr> Tanggal = ''2024-01-01'', Seksi_Tujuan = ''Assy'', Nama_Komponen = k, Status = st,
       Stok = Fin 10, Sisa_Waktu_Jam = PInf, Lead_Time_Jam = Fin 2, Buffer_Waktu_Jam = b \<rparr>"

section \<open>What the rounded table shows\<close>

text \<open>
  A number \<open>d\<close> shows \<open>x\<close> to one decimal: an infinity or NaN is shown as it is; a finite
  \<open>x\<close> (of a magnitude up to \<open>2 ^ 1000\<close>, beyond which the tenfold overflows) is shown
  as a finite number that lies within one twentieth of it, up to the rounding error of
  the double arithmetic, which is at most \<open>(\<bar>x\<bar> + 1) / 2 ^ 51\<close>.
\<close>

definition shown_to_one_decimal :: "fnum \<Rightarrow> fnum \<Rightarrow> bool" where
  "shown_to_one_decimal x d =
     (if is_fin x
      then (\<bar>fval x\<bar> \<le> 2 ^ 1000 \<longrightarrow>
              is_fin d \<and> \<bar>fval d - fval x\<bar> \<le> 1 / 20 + (\<bar>fval x\<bar> + 1) / 2 ^ 51)
      else d = x)"

text \<open>
  Two buffers are the same number for the sort: the same double, the two zeros, or NaN
  twice.
\<close>

definition same_number :: "fnum \<Rightarrow> fnum \<Rightarrow> bool" where
  "same_number x y \<longleftrightarrow> x = y \<or> (is_zero x \<and> is_zero y)"

text \<open>The first decimal digit and what precedes it: the tenfold, cut to an integer.\<close>

definition first_decimal :: "fnum \<Rightarrow> int" where
  "first_decimal x = \<lfloor>fval x * 10\<rfloor>"

section \<open>Facts about the rounding of doubles\<close>

lemma rint_error: "\<bar>of_int (rint a) - a\<bar> \<le> 1 / 2"
  unfolding rint_def Let_def by (auto; linarith)

lemma rint_nonneg: "0 \<le> a \<Longrightarrow> 0 \<le> rint a"
  unfolding rint_def Let_def by auto

lemma pow2_pos: "0 < pow2 e"
  by (simp add: pow2_def)

lemma pow2_powr: "pow2 e = 2 powr (of_int e)"
proof (cases "0 \<le> e")
  case True
  then have "2 powr (real_of_int e) = 2 powr (real (nat e))" by simp
  also have "\<dots> = 2 ^ nat e" by (rule powr_realpow) simp
  finally show ?thesis using True by (simp add: pow2_def)
next
  case False
  then have "2 powr (real_of_int e) = 2 powr (- real (nat (- e)))" by simp
  also have "\<dots> = 1 / 2 powr (real (nat (- e)))" by (simp add: powr_minus_divide)
  also have "2 powr (real (nat (- e))) = 2 ^ nat (- e)" by (rule powr_realpow) simp
  finally show ?thesis using False by (simp add: pow2_def)
qed

lemma pow2_diff52: "pow2 (e - 52) = pow2 e / 2 ^ 52"
proof -
  have "pow2 (e - 52) = 2 powr (of_int e - 52)" by (simp add: pow2_powr)
  also have "\<dots> = 2 powr (of_int e) / 2 powr 52" by (rule powr_diff)
  finally show ?thesis by (simp add: pow2_powr)
qed

text \<open>\<open>expo\<close> is the binary exponent: \<open>2 ^ expo x \<le> \<bar>x\<bar> < 2 ^ (expo x + 1)\<close>.\<close>

lemma expo_lower:
  assumes "x \<noteq> 0"
  shows "pow2 (expo x) \<le> \<bar>x\<bar>"
proof (cases "1 \<le> \<bar>x\<bar>")
  case True
  let ?m = "\<lfloor>\<bar>x\<bar>\<rfloor>"
  from True have m: "0 < ?m" by linarith
  from bitlen_bounds [OF m] have lo: "2 ^ nat (bitlen ?m - 1) \<le> ?m" by simp
  from m have "1 \<le> bitlen ?m" by (simp add: bitlen_alt_def)
  then have "pow2 (expo x) = 2 ^ nat (bitlen ?m - 1)"
    using True by (simp add: expo_def pow2_def)
  also have "\<dots> \<le> of_int ?m" using lo by (metis of_int_le_iff of_int_numeral of_int_power)
  also have "\<dots> \<le> \<bar>x\<bar>" by linarith
  finally show ?thesis .
next
  case False
  let ?k = "\<lceil>1 / \<bar>x\<bar>\<rceil> - 1"
  from False assms have ax: "0 < \<bar>x\<bar>" "\<bar>x\<bar> < 1" by auto
  then have "1 < 1 / \<bar>x\<bar>" by simp
  then have k: "0 < ?k" by linarith
  have le: "1 / \<bar>x\<bar> \<le> of_int (?k + 1)" by simp
  from bitlen_bounds [OF k] have "?k < 2 ^ nat (bitlen ?k)" by simp
  then have "?k + 1 \<le> 2 ^ nat (bitlen ?k)" by simp
  then have "real_of_int (?k + 1) \<le> 2 ^ nat (bitlen ?k)"
    by (metis of_int_le_iff of_int_numeral of_int_power)
  with le have "1 / \<bar>x\<bar> \<le> 2 ^ nat (bitlen ?k)" by linarith
  with ax have "1 / 2 ^ nat (bitlen ?k) \<le> \<bar>x\<bar>"
    by (simp add: field_simps)
  moreover from k have "1 \<le> bitlen ?k" by (simp add: bitlen_alt_def)
  ultimately show ?thesis using False by (simp add: expo_def pow2_def)
qed

lemma expo_upper:
  assumes "x \<noteq> 0"
  shows "\<bar>x\<bar> < 2 * pow2 (expo x)"
proof (cases "1 \<le> \<bar>x\<bar>")
  case True
  let ?m = "\<lfloor>\<bar>x\<bar>\<rfloor>"
  from True have m: "0 < ?m" by linarith
  from m have b: "1 \<le> bitlen ?m" by (simp add: bitlen_alt_def)
  from bitlen_bounds [OF m] have "?m < 2 ^ nat (bitlen ?m)" by simp
  then have "?m + 1 \<le> 2 ^ nat (bitlen ?m)" by simp
  then have "real_of_int (?m + 1) \<le> 2 ^ nat (bitlen ?m)"
    by (metis of_int_le_iff of_int_numeral of_int_power)
  moreover have "\<bar>x\<bar> < real_of_int (?m + 1)" by linarith
  ultimately have "\<bar>x\<bar> < 2 ^ nat (bitlen ?m)" by linarith
  also from b have "nat (bitlen ?m) = Suc (nat (bitlen ?m - 1))" by simp
  finally show ?thesis using True b by (simp add: expo_def pow2_def)
next
  case False
  let ?k = "\<lceil>1 / \<bar>x\<bar>\<rceil> - 1"
  from False assms have ax: "0 < \<bar>x\<bar>" "\<bar>x\<bar> < 1" by auto
  then have "1 < 1 / \<bar>x\<bar>" by simp
  then have k: "0 < ?k" by linarith
  from k have b: "1 \<le> bitlen ?k" by (simp add: bitlen_alt_def)
  have lt: "of_int ?k < 1 / \<bar>x\<bar>" by linarith
  from bitlen_bounds [OF k] have "2 ^ nat (bitlen ?k - 1) \<le> ?k" by simp
  then have "(2::real) ^ nat (bitlen ?k - 1) \<le> of_int ?k"
    by (metis of_int_le_iff of_int_numeral of_int_power)
  with lt have "2 ^ nat (bitlen ?k - 1) < 1 / \<bar>x\<bar>" by linarith
  with ax have "\<bar>x\<bar> < 1 / 2 ^ nat (bitlen ?k - 1)"
    by (simp add: field_simps)
  also from b have "1 / (2::real) ^ nat (bitlen ?k - 1) = 2 * (1 / 2 ^ Suc (nat (bitlen ?k - 1)))"
    by simp
  also from b have "Suc (nat (bitlen ?k - 1)) = nat (bitlen ?k)" by simp
  finally show ?thesis using False b by (simp add: expo_def pow2_def)
qed

lemma fl_zero: "fl 0 = 0"
  by (simp add: fl_def Let_def rint_def)

lemma fl_nonneg: "0 \<le> x \<Longrightarrow> 0 \<le> fl x"
  using pow2_pos [of "max (expo x) (- 1022) - 52"]
  by (simp add: fl_def Let_def rint_nonneg)

text \<open>
  The error of the rounding: half a unit of the last place, which is relative to the
  number except among the subnormal ones.
\<close>

lemma fl_error: "\<bar>fl x - x\<bar> \<le> \<bar>x\<bar> / 2 ^ 53 + 1 / 2 ^ 1075"
proof (cases "x = 0")
  case True
  then show ?thesis by (simp add: fl_zero)
next
  case False
  define u where "u = pow2 (max (expo x) (- 1022) - 52)"
  have upos: "0 < u" by (simp add: u_def pow2_pos)
  have flx: "fl x = of_int (rint (x / u)) * u" by (simp add: fl_def u_def Let_def)
  have "\<bar>fl x - x\<bar> = \<bar>of_int (rint (x / u)) - x / u\<bar> * u"
  proof -
    have "fl x - x = (of_int (rint (x / u)) - x / u) * u"
      using upos by (simp add: flx field_simps)
    then show ?thesis using upos by (simp add: abs_mult)
  qed
  also have "\<dots> \<le> 1 / 2 * u"
    using rint_error [of "x / u"] upos by (intro mult_right_mono) auto
  finally have half: "\<bar>fl x - x\<bar> \<le> u / 2" by simp
  have "u \<le> \<bar>x\<bar> / 2 ^ 52 + 1 / 2 ^ 1074"
  proof (cases "- 1022 \<le> expo x")
    case True
    then have "u = pow2 (expo x) / 2 ^ 52" by (simp add: u_def max_def pow2_diff52)
    also have "\<dots> \<le> \<bar>x\<bar> / 2 ^ 52"
      using expo_lower [OF False] by (simp add: divide_right_mono)
    finally show ?thesis by simp
  next
    case False
    then have "u = 1 / 2 ^ 1074" by (simp add: u_def max_def pow2_def)
    then show ?thesis by simp
  qed
  with half show ?thesis by simp
qed

lemma fl_bound: "\<bar>fl x\<bar> \<le> \<bar>x\<bar> + \<bar>x\<bar> / 2 ^ 53 + 1 / 2 ^ 1075"
  using fl_error [of x] by linarith

lemma round_dbl_fin:
  assumes "\<bar>fl z\<bar> < 2 ^ 1024"
  shows "is_fin (round_dbl z)" and "fval (round_dbl z) = fl z"
  using assms by (simp_all add: round_dbl_def Let_def)

lemma round_dbl_not_negative: "0 \<le> x \<Longrightarrow> \<not> fneg (round_dbl x)"
  using fl_nonneg [of x] by (auto simp add: round_dbl_def Let_def fl_zero)

lemma frint_fin:
  assumes "is_fin y"
  shows "is_fin (frint y)" and "fval (frint y) = of_int (rint (fval y))"
  using assms by (cases y; simp add: frint_def signed_zero_def rint_def)+

lemma fdiv_fin10:
  assumes "is_fin z" and "\<bar>fl (fval z / 10)\<bar> < 2 ^ 1024"
  shows "is_fin (fdiv z (Fin 10))" and "fval (fdiv z (Fin 10)) = fl (fval z / 10)"
  using assms round_dbl_fin [of "fval z / 10"]
  by (cases z; simp add: fdiv_def signed_zero_def fl_zero)+

lemma fmul_fin10:
  assumes "\<bar>fl (x * 10)\<bar> < 2 ^ 1024"
  shows "is_fin (fmul (Fin x) (Fin 10))" and "fval (fmul (Fin x) (Fin 10)) = fl (x * 10)"
  using assms round_dbl_fin [of "x * 10"]
  by (simp_all add: fmul_def signed_zero_def fl_zero)

text \<open>
  What \<^verbatim>\<open>round(1)\<close> yields for a finite number: the double nearest to a tenth of the
  integer nearest to the tenfold, the tenfold itself being rounded to a double.
\<close>

lemma round1_value:
  assumes "\<bar>x\<bar> \<le> 2 ^ 1000"
  shows "is_fin (round1 (Fin x))"
    and "fval (round1 (Fin x)) = fl (of_int (rint (fl (x * 10))) / 10)"
proof -
  let ?y = "fl (x * 10)"
  let ?n = "rint ?y"
  have y: "\<bar>?y\<bar> \<le> 2 ^ 1004"
    using fl_bound [of "x * 10"] assms by simp
  then have y': "\<bar>?y\<bar> < 2 ^ 1024" by simp
  have "\<bar>real_of_int ?n\<bar> \<le> \<bar>?y\<bar> + 1 / 2"
    using rint_error [of ?y] by linarith
  with y have "\<bar>real_of_int ?n\<bar> \<le> 2 ^ 1004 + 1 / 2" by linarith
  then have n: "\<bar>real_of_int ?n\<bar> \<le> 2 ^ 1005" by simp
  have r: "\<bar>fl (of_int ?n / 10)\<bar> < 2 ^ 1024"
    using fl_bound [of "of_int ?n / 10"] n by simp
  note m = fmul_fin10 [OF y']
  note f = frint_fin [OF m(1)]
  from r have r': "\<bar>fl (fval (frint (fmul (Fin x) (Fin 10))) / 10)\<bar> < 2 ^ 1024"
    by (simp add: f(2) m(2))
  note d = fdiv_fin10 [OF f(1) r']
  from d(1) show "is_fin (round1 (Fin x))" by (simp add: round1_def)
  from d(2) show "fval (round1 (Fin x)) = fl (of_int (rint (fl (x * 10))) / 10)"
    by (simp add: round1_def f(2) m(2))
qed

lemma round1_error:
  assumes "\<bar>x\<bar> \<le> 2 ^ 1000"
  shows "\<bar>fval (round1 (Fin x)) - x\<bar> \<le> 1 / 20 + (\<bar>x\<bar> + 1) / 2 ^ 51"
proof -
  let ?y = "fl (x * 10)"
  let ?n = "real_of_int (rint ?y)"
  let ?r = "fl (?n / 10)"
  define A where "A = \<bar>x\<bar>"
  define Y where "Y = \<bar>?y\<bar>"
  define N where "N = \<bar>?n\<bar>"
  define E1 where "E1 = \<bar>?y - x * 10\<bar>"
  define E2 where "E2 = \<bar>?n - ?y\<bar>"
  define E3 where "E3 = \<bar>?r - ?n / 10\<bar>"
  define D where "D = \<bar>?r - x\<bar>"
  have tiny: "(1::real) / 2 ^ 1075 \<le> 1 / 2 ^ 60" by simp
  have A0: "0 \<le> A" by (simp add: A_def)
  have e1: "E1 \<le> A * 10 / 2 ^ 53 + 1 / 2 ^ 60"
    using fl_error [of "x * 10"] tiny by (simp add: E1_def A_def abs_mult)
  have e2: "E2 \<le> 1 / 2" unfolding E2_def by (rule rint_error)
  have e3: "E3 \<le> N / 10 / 2 ^ 53 + 1 / 2 ^ 60"
    using fl_error [of "?n / 10"] tiny by (simp add: E3_def N_def)
  have yb: "Y \<le> A * 10 + E1" unfolding Y_def A_def E1_def by linarith
  have nb: "N \<le> Y + E2" unfolding N_def Y_def E2_def by linarith
  have db: "D \<le> E3 + E2 / 10 + E1 / 10"
  proof -
    have "?r - x = (?r - ?n / 10) + ((?n - ?y) / 10 + (?y - x * 10) / 10)"
      by (simp add: field_simps)
    then have "\<bar>?r - x\<bar> \<le> \<bar>?r - ?n / 10\<bar> + \<bar>(?n - ?y) / 10 + (?y - x * 10) / 10\<bar>"
      by (metis abs_triangle_ineq)
    also have "\<bar>(?n - ?y) / 10 + (?y - x * 10) / 10\<bar>
                 \<le> \<bar>(?n - ?y) / 10\<bar> + \<bar>(?y - x * 10) / 10\<bar>"
      by (rule abs_triangle_ineq)
    finally show ?thesis by (simp add: D_def E1_def E2_def E3_def)
  qed
  from A0 e1 e2 e3 yb nb db have "D \<le> 1 / 20 + (A + 1) / 2 ^ 51"
    by simp argo
  then show ?thesis by (simp add: round1_value [OF assms] D_def A_def)
qed

lemma round1_not_finite: "\<not> is_fin x \<Longrightarrow> round1 x = x"
  by (cases x) (simp_all add: round1_def fmul_def frint_def fdiv_def signed_inf_def)

lemma round1_NZero: "round1 NZero = NZero"
  by (simp add: round1_def fmul_def frint_def fdiv_def signed_zero_def)

text \<open>
  Integers below \<open>2 ^ 53\<close> are doubles, and \<^verbatim>\<open>round(1)\<close> leaves an integer as it is
  (so a stock that is a whole number is shown unchanged).
\<close>

lemma rint_of_int: "rint (of_int n) = n"
  by (simp add: rint_def)

lemma expo_nonneg: "1 \<le> \<bar>x\<bar> \<Longrightarrow> 0 \<le> expo x"
proof -
  assume a: "1 \<le> \<bar>x\<bar>"
  then have "0 < \<lfloor>\<bar>x\<bar>\<rfloor>" by linarith
  then have "1 \<le> bitlen \<lfloor>\<bar>x\<bar>\<rfloor>" by (simp add: bitlen_alt_def)
  with a show ?thesis by (simp add: expo_def)
qed

lemma fl_of_int:
  assumes "\<bar>m\<bar> < 2 ^ 53"
  shows "fl (of_int m) = of_int m"
proof (cases "m = 0")
  case True
  then show ?thesis by (simp add: fl_zero)
next
  case False
  let ?x = "real_of_int m"
  let ?e = "expo ?x"
  from False have "1 \<le> \<bar>m\<bar>" by linarith
  then have "1 \<le> real_of_int \<bar>m\<bar>" by (simp only: of_int_1_le_iff)
  then have one: "1 \<le> \<bar>?x\<bar>" by simp
  from expo_nonneg [OF one] have e0: "0 \<le> ?e" .
  from False have x0: "?x \<noteq> 0" by simp
  from assms have "real_of_int \<bar>m\<bar> < real_of_int (2 ^ 53)" by (simp only: of_int_less_iff)
  then have "\<bar>?x\<bar> < 2 ^ 53" by simp
  with expo_lower [OF x0] have "pow2 ?e < 2 ^ 53" by linarith
  with e0 have "(2::real) ^ nat ?e < 2 ^ 53" by (simp add: pow2_def)
  then have "nat ?e < 53" by (rule power_less_imp_less_exp [rotated]) simp
  with e0 have e52: "?e \<le> 52" by linarith
  define k where "k = nat (52 - ?e)"
  from e0 e52 have u: "pow2 (max ?e (- 1022) - 52) = 1 / 2 ^ k"
    by (auto simp add: pow2_def k_def max_def)
  have "?x / (1 / 2 ^ k) = of_int (m * 2 ^ k)" by simp
  then have "rint (?x / (1 / 2 ^ k)) = m * 2 ^ k" by (simp only: rint_of_int)
  then show ?thesis by (simp add: fl_def Let_def u)
qed


lemma round_dbl_of_int:
  assumes "\<bar>m\<bar> < 2 ^ 53"
  shows "round_dbl (of_int m) = Fin (of_int m)"
proof -
  from assms have "real_of_int \<bar>m\<bar> < real_of_int (2 ^ 53)" by (simp only: of_int_less_iff)
  then have "\<bar>real_of_int m\<bar> < 2 ^ 1024" by simp
  then show ?thesis by (simp add: round_dbl_def Let_def fl_of_int [OF assms])
qed

lemma round1_of_int:
  assumes "\<bar>m\<bar> < 2 ^ 49"
  shows "round1 (Fin (of_int m)) = Fin (of_int m)"
proof (cases "m = 0")
  case True
  then show ?thesis
    by (simp add: round1_def fmul_def frint_def fdiv_def signed_zero_def rint_def)
next
  case False
  from assms have m10: "\<bar>m * 10\<bar> < 2 ^ 53" by simp
  from assms have m1: "\<bar>m\<bar> < 2 ^ 53" by simp
  have "fmul (Fin (of_int m)) (Fin 10) = round_dbl (of_int (m * 10))"
    using False by (simp add: fmul_def)
  also have "\<dots> = Fin (of_int (m * 10))" by (rule round_dbl_of_int [OF m10])
  finally have a: "fmul (Fin (of_int m)) (Fin 10) = Fin (of_int (m * 10))" .
  have b: "frint (Fin (of_int (m * 10))) = Fin (of_int (m * 10))"
    using False by (simp add: frint_def rint_of_int del: of_int_mult)
  have "fdiv (Fin (of_int (m * 10))) (Fin 10) = round_dbl (of_int m)"
    using False by (simp add: fdiv_def)
  also have "\<dots> = Fin (of_int m)" by (rule round_dbl_of_int [OF m1])
  finally show ?thesis by (simp only: round1_def a b)
qed

lemma shown_round1: "shown_to_one_decimal x (round1 x)"
proof (cases x)
  case (Fin a)
  then show ?thesis
    using round1_value(1) [of a] round1_error [of a]
    by (simp add: shown_to_one_decimal_def)
next
  case NZero
  then show ?thesis by (simp add: shown_to_one_decimal_def round1_NZero)
qed (simp_all add: shown_to_one_decimal_def round1_not_finite)

text \<open>Evaluation of the arithmetic at given numbers.\<close>

lemma bitlen_numeral_unfold:
  "bitlen (numeral k) = (if (0::int) < numeral k then bitlen (numeral k div 2) + 1 else 0)"
  by (rule compute_bitlen)

lemma bitlen_one: "bitlen 1 = 1"
  by (simp add: bitlen_alt_def)

lemmas dbl_eval =
  round_dbl_def fl_def expo_def bitlen_numeral_unfold bitlen_one pow2_def rint_def Let_def
  fdiv_def fmul_def fsub_def frint_def round1_def signed_inf_def signed_zero_def

text \<open>
  The rounding error of the doubles can decide the digit: the double nearest to 0.15 lies
  below 0.15, its tenfold is rounded up to 1.5, and \<^verbatim>\<open>rint\<close> takes this tie to 2, so
  0.15 is shown as 0.2 although the number held is nearer to 0.1.
\<close>

lemma round1_of_0_15:
  "fval (round_dbl 0.15) < 0.15 \<and> round1 (round_dbl 0.15) = round_dbl 0.2"
  by (simp add: dbl_eval)

section \<open>Facts about the columns\<close>

lemma selisih_add_columns:
  "selisih_waktu (add_columns r) =
     fsub (fdiv (stok_tersedia r) (konsumsi_per_jam r)) (lead_time r)"
  by (simp add: add_columns_def Let_def df_row.extend_def dashboard_row.fields_def)

lemma waktu_habis_add_columns:
  "waktu_habis_stok (add_columns r) = fdiv (stok_tersedia r) (konsumsi_per_jam r)"
  by (simp add: add_columns_def Let_def df_row.extend_def dashboard_row.fields_def)

lemma fields_add_columns:
  "tanggal (add_columns r) = tanggal r"
  "seksi_tujuan (add_columns r) = seksi_tujuan r"
  "nama_komponen (add_columns r) = nama_komponen r"
  "stok_tersedia (add_columns r) = stok_tersedia r"
  "konsumsi_per_jam (add_columns r) = konsumsi_per_jam r"
  "lead_time (add_columns r) = lead_time r"
  by (simp_all add: add_columns_def Let_def df_row.extend_def dashboard_row.fields_def)

lemma fgt0_not_fle0: "fgt0 x \<Longrightarrow> \<not> fle0 x"
  by (cases x) auto

text \<open>
  The arithmetic is that of doubles, not of the reals: for a stock of 2.1, a consumption of
  0.7 and a lead time of 3 the buffer is not zero but \<open>2 ^ - 51\<close>, so the row has a
  positive buffer.
\<close>

lemma buffer_of_inexact_division:
  "selisih_waktu (add_columns (mk_row ''Bolt'' 2.1 0.7 3)) = Fin (1 / 2 ^ 51)"
  by (simp add: selisih_add_columns mk_row_def dbl_eval)

section \<open>The deterministic override\<close>

text \<open>
  Claim C1. Whenever the buffer \<^verbatim>\<open>selisih_waktu\<close> of an observation is at most zero the
  status is \<^verbatim>\<open>'Merah'\<close> and the model is not called: the state of the model comes back
  unchanged, for every model. This holds for a row of the dashboard table and for the
  simulation tab.
\<close>

theorem C1_nonpositive_buffer_is_Merah:
  "(fle0 (selisih_waktu row) \<longrightarrow> get_status model s row = (Inr ''Merah'', s)) \<and>
   (konsumsi_map (seksi, komponen) = Some k \<and>
    fle0 (fsub (if fgt0 k then fdiv stok k else PInf) lt) \<longrightarrow>
      predict_button model konsumsi_map s seksi komponen stok lt =
        (Inr (Hasil (if fgt0 k then fdiv stok k else PInf)
                    (fsub (if fgt0 k then fdiv stok k else PInf) lt) ''Merah''), s))"
  by (simp add: get_status_def predict_button_def Let_def)

theorem C1_witness:
  "fle0 (selisih_waktu (add_columns (mk_row ''Bolt'' 20 10 5))) \<and>
   get_status stub_raise 0 (add_columns (mk_row ''Bolt'' 20 10 5)) = (Inr ''Merah'', 0) \<and>
   [(''Assy'', ''Bolt'') \<mapsto> Fin 10] (''Assy'', ''Bolt'') = Some (Fin 10) \<and>
   fle0 (fsub (fdiv (Fin 20) (Fin 10)) (Fin 5)) \<and>
   predict_button stub_raise [(''Assy'', ''Bolt'') \<mapsto> Fin 10] 0 ''Assy'' ''Bolt''
       (Fin 20) (Fin 5) =
     (Inr (Hasil (Fin 2) (Fin (- 3)) ''Merah''), 0)"
proof -
  have h: "fle0 (selisih_waktu (add_columns (mk_row ''Bolt'' 20 10 5)))"
    by (simp add: selisih_add_columns mk_row_def dbl_eval)
  have k: "[(''Assy'', ''Bolt'') \<mapsto> Fin 10] (''Assy'', ''Bolt'') = Some (Fin 10)"
    by simp
  have w: "fdiv (Fin 20) (Fin 10) = Fin 2"
    by (simp add: dbl_eval)
  have d: "fsub (Fin 2) (Fin 5) = Fin (- 3)"
    by (simp add: dbl_eval)
  have b: "fle0 (fsub (if fgt0 (Fin 10) then fdiv (Fin 20) (Fin 10) else PInf) (Fin 5))"
    by (simp add: w d)
  from C1_nonpositive_buffer_is_Merah
         [of "add_columns (mk_row ''Bolt'' 20 10 5)" stub_raise 0
             "[(''Assy'', ''Bolt'') \<mapsto> Fin 10]" "''Assy''" "''Bolt''" "Fin 10" "Fin 20" "Fin 5"]
       h k b
  show ?thesis by (simp add: w d)
qed

section \<open>Remapping of the label of the model\<close>

text \<open>
  Claim C2. When the buffer is positive and the model, consulted, answers \<^verbatim>\<open>'Merah'\<close>,
  the status returned is \<^verbatim>\<open>'Kuning'\<close>; so it is not \<^verbatim>\<open>'Hijau'\<close>.
\<close>

theorem C2_model_Merah_becomes_Kuning:
  "fgt0 (selisih_waktu row) \<Longrightarrow>
   model s (seksi_tujuan row, nama_komponen row, stok_tersedia row, lead_time row)
     = (Inr ''Merah'', s') \<Longrightarrow>
   get_status model s row = (Inr ''Kuning'', s') \<and>
   fst (get_status model s row) \<noteq> Inr ''Hijau''"
  by (simp add: get_status_def fgt0_not_fle0)

theorem C2_witness:
  "fgt0 (selisih_waktu (add_columns (mk_row ''Bolt'' 60 10 5))) \<and>
   stub_const ''Merah'' 0 (''Assy'', ''Bolt'', Fin 60, Fin 5) = (Inr ''Merah'', 1) \<and>
   get_status (stub_const ''Merah'') 0 (add_columns (mk_row ''Bolt'' 60 10 5))
     = (Inr ''Kuning'', 1)"
proof -
  let ?row = "add_columns (mk_row ''Bolt'' 60 10 5)"
  have h: "fgt0 (selisih_waktu ?row)"
    by (simp add: selisih_add_columns mk_row_def dbl_eval)
  have m: "stub_const ''Merah'' 0
             (seksi_tujuan ?row, nama_komponen ?row, stok_tersedia ?row, lead_time ?row)
           = (Inr ''Merah'', 1)"
    by (simp add: stub_const_def)
  have i: "stub_const ''Merah'' 0 (''Assy'', ''Bolt'', Fin 60, Fin 5) = (Inr ''Merah'', 1)"
    by (simp add: stub_const_def)
  from C2_model_Merah_becomes_Kuning
         [where row = ?row and model = "stub_const ''Merah''" and s = 0 and s' = 1] h m i
  show ?thesis by simp
qed

text \<open>
  Claim C4. When the buffer is positive and the model answers a label other than
  \<^verbatim>\<open>'Merah'\<close>, the status returned is that label, unchanged.
\<close>

theorem C4_other_labels_pass_through:
  "fgt0 (selisih_waktu row) \<Longrightarrow>
   model s (seksi_tujuan row, nama_komponen row, stok_tersedia row, lead_time row)
     = (Inr l, s') \<Longrightarrow>
   l \<noteq> ''Merah'' \<Longrightarrow>
   get_status model s row = (Inr l, s')"
  by (simp add: get_status_def fgt0_not_fle0)

theorem C4_witness:
  "fgt0 (selisih_waktu (add_columns (mk_row ''Bolt'' 100 10 5))) \<and>
   stub_const ''Hijau'' 0 (''Assy'', ''Bolt'', Fin 100, Fin 5) = (Inr ''Hijau'', 1) \<and>
   ''Hijau'' \<noteq> ''Merah'' \<and>
   get_status (stub_const ''Hijau'') 0 (add_columns (mk_row ''Bolt'' 100 10 5))
     = (Inr ''Hijau'', 1)"
proof -
  let ?row = "add_columns (mk_row ''Bolt'' 100 10 5)"
  have h: "fgt0 (selisih_waktu ?row)"
    by (simp add: selisih_add_columns mk_row_def dbl_eval)
  have m: "stub_const ''Hijau'' 0
             (seksi_tujuan ?row, nama_komponen ?row, stok_tersedia ?row, lead_time ?row)
           = (Inr ''Hijau'', 1)"
    by (simp add: stub_const_def)
  have i: "stub_const ''Hijau'' 0 (''Assy'', ''Bolt'', Fin 100, Fin 5) = (Inr ''Hijau'', 1)"
    by (simp add: stub_const_def)
  have n: "''Hijau'' \<noteq> ''Merah''" by simp
  from C4_other_labels_pass_through
         [where row = ?row and model = "stub_const ''Hijau''" and s = 0 and s' = 1
            and l = "''Hijau''"] h m n i
  show ?thesis by simp
qed

section \<open>Failure of the model\<close>

text \<open>
  Claim C5. When the buffer is positive and the call of the model raises, \<^verbatim>\<open>get_status\<close>
  raises the same exception: its result is that error and not a status of any kind.
\<close>

theorem C5_classifier_failure_is_raised:
  "fgt0 (selisih_waktu row) \<Longrightarrow>
   model s (seksi_tujuan row, nama_komponen row, stok_tersedia row, lead_time row)
     = (Inl e, s') \<Longrightarrow>
   get_status model s row = (Inl e, s') \<and>
   (\<forall>st. fst (get_status model s row) \<noteq> Inr st)"
  by (simp add: get_status_def fgt0_not_fle0)

theorem C5_witness:
  "fgt0 (selisih_waktu (add_columns (mk_row ''Bolt'' 100 10 5))) \<and>
   stub_raise 0 (''Assy'', ''Bolt'', Fin 100, Fin 5)
     = (Inl (ClassifierError ''unavailable''), 1) \<and>
   get_status stub_raise 0 (add_columns (mk_row ''Bolt'' 100 10 5))
     = (Inl (ClassifierError ''unavailable''), 1)"
proof -
  let ?row = "add_columns (mk_row ''Bolt'' 100 10 5)"
  have h: "fgt0 (selisih_waktu ?row)"
    by (simp add: selisih_add_columns mk_row_def dbl_eval)
  have m: "stub_raise 0
             (seksi_tujuan ?row, nama_komponen ?row, stok_tersedia ?row, lead_time ?row)
           = (Inl (ClassifierError ''unavailable''), 1)"
    by (simp add: stub_raise_def)
  have i: "stub_raise 0 (''Assy'', ''Bolt'', Fin 100, Fin 5)
             = (Inl (ClassifierError ''unavailable''), 1)"
    by (simp add: stub_raise_def)
  from C5_classifier_failure_is_raised
         [where row = ?row and model = stub_raise and s = 0 and s' = 1
            and e = "ClassifierError ''unavailable''"] h m i
  show ?thesis by simp
qed

section \<open>The vocabulary of the status\<close>

text \<open>
  Claim C9. \<^verbatim>\<open>get_status\<close> does not check the label it gets from the model. When the
  model answers a label \<open>l\<close>, a status is returned, and it lies among \<^verbatim>\<open>'Merah'\<close>,
  \<^verbatim>\<open>'Kuning'\<close> and \<^verbatim>\<open>'Hijau'\<close> exactly when the override decided or \<open>l\<close> itself lies
  there; a consulted model's label other than \<^verbatim>\<open>'Merah'\<close> is the status, verbatim.
\<close>

theorem C9_status_in_vocabulary_iff_label_is:
  "model s (seksi_tujuan row, nama_komponen row, stok_tersedia row, lead_time row)
     = (Inr l, s') \<Longrightarrow>
   (\<exists>st t. get_status model s row = (Inr st, t) \<and>
      (st \<in> {''Merah'', ''Kuning'', ''Hijau''} \<longleftrightarrow>
         fle0 (selisih_waktu row) \<or> l \<in> {''Merah'', ''Kuning'', ''Hijau''}) \<and>
      (\<not> fle0 (selisih_waktu row) \<and> l \<noteq> ''Merah'' \<longrightarrow> st = l))"
  by (auto simp add: get_status_def)

theorem C9_witness:
  "stub_const ''Biru'' 0 (''Assy'', ''Bolt'', Fin 100, Fin 5) = (Inr ''Biru'', 1) \<and>
   fst (get_status (stub_const ''Biru'') 0 (add_columns (mk_row ''Bolt'' 100 10 5)))
     = Inr ''Biru'' \<and>
   ''Biru'' \<notin> {''Merah'', ''Kuning'', ''Hijau''}"
proof -
  let ?row = "add_columns (mk_row ''Bolt'' 100 10 5)"
  have m: "stub_const ''Biru'' 0
             (seksi_tujuan ?row, nama_komponen ?row, stok_tersedia ?row, lead_time ?row)
           = (Inr ''Biru'', 1)"
    by (simp add: stub_const_def)
  have i: "stub_const ''Biru'' 0 (''Assy'', ''Bolt'', Fin 100, Fin 5) = (Inr ''Biru'', 1)"
    by (simp add: stub_const_def)
  have b: "\<not> fle0 (selisih_waktu ?row)"
    by (simp add: selisih_add_columns mk_row_def dbl_eval)
  from C9_status_in_vocabulary_iff_label_is
         [where row = ?row and model = "stub_const ''Biru''" and s = 0 and s' = 1
            and l = "''Biru''"] m b i
  show ?thesis by auto
qed

section \<open>Division by a zero consumption\<close>

lemma fdiv_not_negative: "\<not> sign_neg a \<Longrightarrow> \<not> sign_neg b \<Longrightarrow> \<not> fneg (fdiv a b)"
proof (cases "is_fin a \<and> is_fin b \<and> \<not> is_zero a \<and> \<not> is_zero b")
  case False
  assume "\<not> sign_neg a" and "\<not> sign_neg b"
  with False show ?thesis
    by (cases a; cases b) (auto simp add: fdiv_def signed_inf_def signed_zero_def)
next
  case True
  assume "\<not> sign_neg a" and "\<not> sign_neg b"
  with True obtain x y where xy: "a = Fin x" "b = Fin y" "0 < x" "0 < y"
    by (cases a; cases b) auto
  then have "fdiv a b = round_dbl (x / y)" by (simp add: fdiv_def)
  with xy round_dbl_not_negative [of "x / y"] show ?thesis by simp
qed

lemma add_columns_zero_consumption_positive_stock:
  assumes "konsumsi_per_jam r = Fin 0" and "fgt0 (stok_tersedia r)" and "is_fin (lead_time r)"
  shows "waktu_habis_stok (add_columns r) = PInf"
    and "selisih_waktu (add_columns r) = PInf"
    and "\<not> fle0 (selisih_waktu (add_columns r))"
proof -
  from assms(1,2) have w: "fdiv (stok_tersedia r) (konsumsi_per_jam r) = PInf"
    by (cases "stok_tersedia r") (auto simp add: fdiv_def signed_inf_def)
  from assms(3) have s: "fsub PInf (lead_time r) = PInf"
    by (cases "lead_time r") (auto simp add: fsub_def)
  from w show "waktu_habis_stok (add_columns r) = PInf"
    by (simp add: waktu_habis_add_columns)
  from w s show "selisih_waktu (add_columns r) = PInf"
    by (simp add: selisih_add_columns)
  then show "\<not> fle0 (selisih_waktu (add_columns r))" by simp
qed

text \<open>
  A consumption of negative zero, which \<^verbatim>\<open>>= 0\<close> accepts as well: the unguarded division
  of the table gives minus infinity for a positive stock, so the row is \<^verbatim>\<open>'Merah'\<close> without
  a call of the model.
\<close>

lemma add_columns_negative_zero_consumption:
  assumes "konsumsi_per_jam r = NZero" and "fgt0 (stok_tersedia r)" and "is_fin (lead_time r)"
  shows "waktu_habis_stok (add_columns r) = NInf"
    and "selisih_waktu (add_columns r) = NInf"
    and "get_status model s (add_columns r) = (Inr ''Merah'', s)"
proof -
  from assms(1,2) have w: "fdiv (stok_tersedia r) (konsumsi_per_jam r) = NInf"
    by (cases "stok_tersedia r") (auto simp add: fdiv_def signed_inf_def)
  from assms(3) have s: "fsub NInf (lead_time r) = NInf"
    by (cases "lead_time r") (auto simp add: fsub_def)
  from w show "waktu_habis_stok (add_columns r) = NInf"
    by (simp add: waktu_habis_add_columns)
  from w s show b: "selisih_waktu (add_columns r) = NInf"
    by (simp add: selisih_add_columns)
  then show "get_status model s (add_columns r) = (Inr ''Merah'', s)"
    by (simp add: get_status_def)
qed

lemma predict_button_zero_consumption:
  assumes "konsumsi_map (seksi, komponen) = Some k" and "\<not> fgt0 k" and "is_fin lt"
  shows "predict_button model konsumsi_map s seksi komponen stok lt =
           (case model s (seksi, komponen, stok, lt) of
              (Inl e, s') \<Rightarrow> (Inl e, s')
            | (Inr pred, s') \<Rightarrow>
                (Inr (Hasil PInf PInf (if pred = ''Merah'' then ''Kuning'' else pred)), s'))"
proof -
  from assms(3) have "fsub PInf lt = PInf"
    by (cases lt) (auto simp add: fsub_def)
  with assms(1,2) show ?thesis by (simp add: predict_button_def)
qed

lemma predict_button_not_negative:
  assumes "konsumsi_map (seksi, komponen) = Some k" and "\<not> sign_neg stok"
    and "predict_button model konsumsi_map s seksi komponen stok lt = (Inr (Hasil w b st), s')"
  shows "\<not> fneg w"
proof (cases "fgt0 k")
  case True
  with assms have w: "w = fdiv stok k"
    by (auto simp add: predict_button_def Let_def split: if_splits prod.splits sum.splits)
  from True have "\<not> sign_neg k" by (cases k) auto
  with assms(2) w show ?thesis by (simp add: fdiv_not_negative)
next
  case False
  with assms have "w = PInf"
    by (auto simp add: predict_button_def Let_def split: if_splits prod.splits sum.splits)
  then show ?thesis by simp
qed

text \<open>
  Claim C3. With a consumption of zero the simulation tab takes the depletion time and the
  buffer to be plus infinity and consults the model, and for a positive stock so does the
  dashboard table; nothing is raised, and the depletion time is not negative for inputs
  whose sign is not negative (the lemmas above). The table, though, divides without the
  guard of the simulation tab: for a stock of zero and a consumption of zero its depletion
  time and its buffer are NaN, where the simulation tab gives plus infinity for the same
  numbers.
\<close>

theorem C3_zero_stock_zero_consumption:
  "waktu_habis_stok (add_columns (mk_row ''Bolt'' 0 0 2)) = NaN \<and>
   selisih_waktu (add_columns (mk_row ''Bolt'' 0 0 2)) = NaN \<and>
   process_dashboard_data [mk_row ''Bolt'' 0 0 2] (stub_const ''Hijau'') 0 =
     (Inr [\<lparr> Tanggal = ''2024-01-01'', Seksi_Tujuan = ''Assy'', Nama_Komponen = ''Bolt'',
             Status = ''Hijau'', Stok = Fin 0, Sisa_Waktu_Jam = NaN, Lead_Time_Jam = Fin 2,
             Buffer_Waktu_Jam = NaN \<rparr>], 1) \<and>
   predict_button (stub_const ''Hijau'') [(''Assy'', ''Bolt'') \<mapsto> Fin 0] 0 ''Assy'' ''Bolt''
       (Fin 0) (Fin 2) =
     (Inr (Hasil PInf PInf ''Hijau''), 1)"
  by (simp add: process_dashboard_data_def get_status_def predict_button_def
        selisih_add_columns waktu_habis_add_columns fields_add_columns mk_row_def
        stub_const_def result_of_def dbl_eval)

section \<open>A failure inside a batch\<close>

lemma apply_get_status_append_fail:
  "apply_get_status model s pre = (Inr sts, s1) \<Longrightarrow>
   get_status model s1 r = (Inl e, s2) \<Longrightarrow>
   apply_get_status model s (pre @ r # post) = (Inl e, s2)"
proof (induction pre arbitrary: s sts)
  case Nil
  then show ?case by simp
next
  case (Cons row pre)
  from Cons.prems(1) obtain st s' sts' where
    g: "get_status model s row = (Inr st, s')" and
    a: "apply_get_status model s' pre = (Inr sts', s1)"
    by (auto split: prod.splits sum.splits)
  from Cons.IH [OF a Cons.prems(2)] g show ?case by simp
qed

lemma apply_get_status_length:
  "apply_get_status model s rows = (Inr sts, s') \<Longrightarrow> length sts = length rows"
proof (induction rows arbitrary: s sts)
  case Nil
  then show ?case by simp
next
  case (Cons row rows)
  from Cons.prems obtain st s1 sts' where
    a: "apply_get_status model s1 rows = (Inr sts', s')" and e: "sts = st # sts'"
    by (auto split: prod.splits sum.splits)
  from Cons.IH [OF a] e show ?case by simp
qed

text \<open>
  Claim C6, as the specification states it, fails: the exception that the model raises for
  one row leaves \<^verbatim>\<open>apply\<close> and \<^verbatim>\<open>process_dashboard_data\<close>, so the caller gets the
  error and no table. In the batch below the model fails for the second row only; the
  first row alone evaluates to \<^verbatim>\<open>'Hijau'\<close>, yet the batch yields nothing but the error.
\<close>

theorem C6_counterexample:
  "get_status (stub_fail_on ''Nut'') 0 (add_columns (mk_row ''Bolt'' 100 10 5))
     = (Inr ''Hijau'', 1) \<and>
   process_dashboard_data [mk_row ''Bolt'' 100 10 5, mk_row ''Nut'' 60 10 5]
       (stub_fail_on ''Nut'') 0
     = (Inl (ClassifierError ''unavailable''), 2)"
  by (simp add: process_dashboard_data_def get_status_def selisih_add_columns
        fields_add_columns mk_row_def stub_fail_on_def dbl_eval)

text \<open>
  Claim C6, amended. The rows of a batch are evaluated in order, and the first failure of
  the model ends the evaluation of the batch: when the rows before \<open>r\<close> evaluate to
  statuses and the model fails for \<open>r\<close>, \<^verbatim>\<open>process_dashboard_data\<close> raises that error and
  returns no table, and the state of the model is the one the failing call left, so the
  model is not called for the rows after \<open>r\<close>.
\<close>

theorem C6_first_failure_ends_the_batch:
  "apply_get_status model s (map add_columns pre) = (Inr sts, s1) \<Longrightarrow>
   get_status model s1 (add_columns r) = (Inl e, s2) \<Longrightarrow>
   process_dashboard_data (pre @ r # post) model s = (Inl e, s2)"
  by (simp add: process_dashboard_data_def Let_def apply_get_status_append_fail)

theorem C6_witness:
  "apply_get_status (stub_fail_on ''Nut'') 0 (map add_columns [mk_row ''Bolt'' 100 10 5])
     = (Inr [''Hijau''], 1) \<and>
   get_status (stub_fail_on ''Nut'') 1 (add_columns (mk_row ''Nut'' 60 10 5))
     = (Inl (ClassifierError ''unavailable''), 2) \<and>
   process_dashboard_data
       ([mk_row ''Bolt'' 100 10 5] @ mk_row ''Nut'' 60 10 5 # [mk_row ''Pin'' 80 10 5])
       (stub_fail_on ''Nut'') 0
     = (Inl (ClassifierError ''unavailable''), 2)"
proof -
  have a: "apply_get_status (stub_fail_on ''Nut'') 0
             (map add_columns [mk_row ''Bolt'' 100 10 5]) = (Inr [''Hijau''], 1)"
    by (simp add: get_status_def selisih_add_columns fields_add_columns mk_row_def
          stub_fail_on_def dbl_eval)
  have g: "get_status (stub_fail_on ''Nut'') 1 (add_columns (mk_row ''Nut'' 60 10 5))
             = (Inl (ClassifierError ''unavailable''), 2)"
    by (simp add: get_status_def selisih_add_columns fields_add_columns mk_row_def
          stub_fail_on_def dbl_eval)
  from C6_first_failure_ends_the_batch [OF a g, of "[mk_row ''Pin'' 80 10 5]"] a g
  show ?thesis by simp
qed

section \<open>Repeated evaluation\<close>

lemma fst_get_status:
  "fst (get_status model s row) =
     (if fle0 (selisih_waktu row) then Inr ''Merah''
      else remap (fst (model s
             (seksi_tujuan row, nama_komponen row, stok_tersedia row, lead_time row))))"
  by (simp add: get_status_def remap_def split: prod.splits sum.splits)

lemma get_status_deterministic:
  assumes "deterministic model"
  shows "fst (get_status model s row) = fst (get_status model t row)"
proof -
  let ?x = "(seksi_tujuan row, nama_komponen row, stok_tersedia row, lead_time row)"
  from assms have "fst (model s ?x) = fst (model t ?x)"
    unfolding deterministic_def by blast
  then show ?thesis by (simp add: fst_get_status)
qed

lemma apply_get_status_deterministic:
  "deterministic model \<Longrightarrow>
   fst (apply_get_status model s rows) = fst (apply_get_status model t rows)"
proof (induction rows arbitrary: s t)
  case Nil
  show ?case by simp
next
  case (Cons row rows)
  obtain a s1 where a: "get_status model s row = (a, s1)"
    by (cases "get_status model s row")
  obtain b t1 where b: "get_status model t row = (b, t1)"
    by (cases "get_status model t row")
  from get_status_deterministic [OF Cons.prems, of s row t] a b have ab: "a = b" by simp
  obtain c s2 where c: "apply_get_status model s1 rows = (c, s2)"
    by (cases "apply_get_status model s1 rows")
  obtain d t2 where d: "apply_get_status model t1 rows = (d, t2)"
    by (cases "apply_get_status model t1 rows")
  from Cons.IH [OF Cons.prems, of s1 t1] c d have cd: "c = d" by simp
  show ?case using a b c d ab cd by (simp split: sum.splits)
qed

text \<open>
  Claim C8. With a deterministic model, two evaluations of the same frame give the same
  outcome (the same table, hence the same depletion time, buffer and status in every row,
  or the same error), whatever states \<open>s\<close> and \<open>t\<close> the model is in when they start; in
  particular when the second evaluation starts in the state the first one left.
\<close>

theorem C8_same_frame_same_table:
  "deterministic model \<Longrightarrow>
   fst (process_dashboard_data df model t) = fst (process_dashboard_data df model s)"
proof -
  assume dm: "deterministic model"
  let ?rows = "map add_columns df"
  obtain c s2 where c: "apply_get_status model s ?rows = (c, s2)"
    by (cases "apply_get_status model s ?rows")
  obtain d t2 where d: "apply_get_status model t ?rows = (d, t2)"
    by (cases "apply_get_status model t ?rows")
  from apply_get_status_deterministic [OF dm, of s ?rows t] c d have "c = d" by simp
  with c d show ?thesis
    by (simp add: process_dashboard_data_def Let_def split: sum.splits)
qed

theorem C8_witness:
  "deterministic (stub_const ''Hijau'') \<and>
   snd (process_dashboard_data [mk_row ''Bolt'' 100 10 5, mk_row ''Nut'' 20 10 5]
          (stub_const ''Hijau'') 0) = 1 \<and>
   fst (process_dashboard_data [mk_row ''Bolt'' 100 10 5, mk_row ''Nut'' 20 10 5]
          (stub_const ''Hijau'') 1) =
   fst (process_dashboard_data [mk_row ''Bolt'' 100 10 5, mk_row ''Nut'' 20 10 5]
          (stub_const ''Hijau'') 0) \<and>
   map Status (projr (fst (process_dashboard_data
          [mk_row ''Bolt'' 100 10 5, mk_row ''Nut'' 20 10 5] (stub_const ''Hijau'') 0)))
     = [''Hijau'', ''Merah'']"
proof -
  have d: "deterministic (stub_const ''Hijau'')"
    by (simp add: deterministic_def stub_const_def)
  have e: "process_dashboard_data [mk_row ''Bolt'' 100 10 5, mk_row ''Nut'' 20 10 5]
             (stub_const ''Hijau'') 0 =
           (Inr [result_of (add_columns (mk_row ''Bolt'' 100 10 5)) ''Hijau'',
                 result_of (add_columns (mk_row ''Nut'' 20 10 5)) ''Merah''], 1)"
    by (simp add: process_dashboard_data_def get_status_def selisih_add_columns
          fields_add_columns mk_row_def stub_const_def dbl_eval)
  from C8_same_frame_same_table
         [OF d, of "[mk_row ''Bolt'' 100 10 5, mk_row ''Nut'' 20 10 5]" 1 0] d e
  show ?thesis by (simp add: result_of_def)
qed

section \<open>Order of the sorted table\<close>

lemma key_le_total: "key_le a b \<or> key_le b a"
  by (cases a; cases b) auto

lemma key_le_trans: "key_le a b \<Longrightarrow> key_le b c \<Longrightarrow> key_le a c"
  by (cases a; cases b; cases c) auto

lemma key_le_antisym: "key_le a b \<Longrightarrow> key_le b a \<Longrightarrow> a = b"
  by (cases a; cases b) auto

lemma fnum_le_total: "fnum_le a b \<or> fnum_le b a"
  by (cases a; cases b) auto

lemma fnum_le_trans: "fnum_le a b \<Longrightarrow> fnum_le b c \<Longrightarrow> fnum_le a c"
  by (cases a; cases b; cases c) auto

lemma fnum_le_refl: "fnum_le a a"
  by (cases a) auto

lemma fnum_le_both: "fnum_le a b \<and> fnum_le b a \<longleftrightarrow> same_number a b"
  by (cases a; cases b) (auto simp add: same_number_def)

lemma row_le_total: "row_le a b \<or> row_le b a"
  using key_le_total [of "SortKey (Status a)" "SortKey (Status b)"]
        fnum_le_total [of "Buffer_Waktu_Jam a" "Buffer_Waktu_Jam b"]
  by (auto simp add: row_le_def Let_def)

lemma row_le_trans:
  assumes "row_le a b" and "row_le b c"
  shows "row_le a c"
proof -
  let ?ka = "SortKey (Status a)" and ?kb = "SortKey (Status b)" and ?kc = "SortKey (Status c)"
  from assms(1) have ab: "key_le ?ka ?kb"
    using key_le_total [of ?ka ?ka] by (auto simp add: row_le_def Let_def split: if_splits)
  from assms(2) have bc: "key_le ?kb ?kc"
    using key_le_total [of ?kb ?kb] by (auto simp add: row_le_def Let_def split: if_splits)
  from ab bc have ac: "key_le ?ka ?kc" by (rule key_le_trans)
  show ?thesis
  proof (cases "?ka = ?kc")
    case False
    with ac show ?thesis by (simp add: row_le_def Let_def)
  next
    case True
    with ab bc have "?ka = ?kb" by (auto intro: key_le_antisym)
    with True assms show ?thesis
      by (auto simp add: row_le_def Let_def intro: fnum_le_trans)
  qed
qed

lemma set_insert_row: "set (insert_row r xs) = insert r (set xs)"
  by (induction xs) auto

lemma mset_insert_row: "mset (insert_row r xs) = add_mset r (mset xs)"
  by (induction xs) auto

lemma mset_sort_values: "mset (sort_values rs) = mset rs"
  by (induction rs) (auto simp add: mset_insert_row)

lemma sorted_insert_row:
  "sorted_wrt row_le xs \<Longrightarrow> sorted_wrt row_le (insert_row r xs)"
proof (induction xs)
  case Nil
  show ?case by simp
next
  case (Cons x xs)
  show ?case
  proof (cases "row_le r x")
    case True
    with Cons.prems show ?thesis by (auto intro: row_le_trans)
  next
    case False
    with row_le_total [of r x] have "row_le x r" by simp
    with False Cons show ?thesis by (auto simp add: set_insert_row)
  qed
qed

lemma sorted_sort_values: "sorted_wrt row_le (sort_values rs)"
  by (induction rs) (auto intro: sorted_insert_row)

lemma row_le_status:
  "row_le a b \<Longrightarrow>
   (Status a = ''Kuning'' \<longrightarrow> Status b \<noteq> ''Merah'') \<and>
   (Status a = ''Hijau'' \<longrightarrow> Status b \<noteq> ''Merah'' \<and> Status b \<noteq> ''Kuning'') \<and>
   (Status a = Status b \<longrightarrow> fnum_le (Buffer_Waktu_Jam a) (Buffer_Waktu_Jam b))"
  by (auto simp add: row_le_def Let_def SortKey_def split: if_splits)

text \<open>
  Claim C7. In the sorted table of the first tab, for any two positions \<open>i < j\<close>: a row
  \<^verbatim>\<open>'Kuning'\<close> is never followed by a row \<^verbatim>\<open>'Merah'\<close>, a row \<^verbatim>\<open>'Hijau'\<close> is never
  followed by a row \<^verbatim>\<open>'Merah'\<close> or \<^verbatim>\<open>'Kuning'\<close>, and two rows of the same status stand
  in ascending order of the buffer column of the table, which holds the buffer rounded to
  one decimal (a NaN buffer, which no comparison orders, stands last in its group). The
  sorted table holds exactly the rows that passed the filter on the status.
\<close>

theorem C7_sorted_by_status_then_buffer:
  "i < j \<Longrightarrow> j < length (tab1_sorted dashboard_data selected_statuses) \<Longrightarrow>
   (Status (tab1_sorted dashboard_data selected_statuses ! i) = ''Kuning'' \<longrightarrow>
      Status (tab1_sorted dashboard_data selected_statuses ! j) \<noteq> ''Merah'') \<and>
   (Status (tab1_sorted dashboard_data selected_statuses ! i) = ''Hijau'' \<longrightarrow>
      Status (tab1_sorted dashboard_data selected_statuses ! j) \<noteq> ''Merah'' \<and>
      Status (tab1_sorted dashboard_data selected_statuses ! j) \<noteq> ''Kuning'') \<and>
   (Status (tab1_sorted dashboard_data selected_statuses ! i) =
      Status (tab1_sorted dashboard_data selected_statuses ! j) \<longrightarrow>
      fnum_le (Buffer_Waktu_Jam (tab1_sorted dashboard_data selected_statuses ! i))
              (Buffer_Waktu_Jam (tab1_sorted dashboard_data selected_statuses ! j))) \<and>
   mset (tab1_sorted dashboard_data selected_statuses) =
     mset (filter (\<lambda>r. Status r \<in> set selected_statuses) dashboard_data)"
proof -
  assume ij: "i < j" and j: "j < length (tab1_sorted dashboard_data selected_statuses)"
  let ?out = "tab1_sorted dashboard_data selected_statuses"
  have "sorted_wrt row_le ?out"
    by (simp add: tab1_sorted_def Let_def sorted_sort_values)
  with ij j have "row_le (?out ! i) (?out ! j)"
    by (simp add: sorted_wrt_iff_nth_less)
  from row_le_status [OF this] show ?thesis
    by (simp add: tab1_sorted_def Let_def mset_sort_values)
qed

theorem C7_witness:
  "tab1_sorted
     [mk_result ''a'' ''Hijau'' (Fin 3), mk_result ''b'' ''Merah'' (Fin (- 1)),
      mk_result ''c'' ''Kuning'' (Fin 4), mk_result ''d'' ''Merah'' (Fin (- 4)),
      mk_result ''e'' ''Kuning'' (Fin 2)]
     [''Merah'', ''Kuning'', ''Hijau'']
   = [mk_result ''d'' ''Merah'' (Fin (- 4)), mk_result ''b'' ''Merah'' (Fin (- 1)),
      mk_result ''e'' ''Kuning'' (Fin 2), mk_result ''c'' ''Kuning'' (Fin 4),
      mk_result ''a'' ''Hijau'' (Fin 3)] \<and>
   (0::nat) < 1 \<and>
   fnum_le (Fin (- 4)) (Fin (- 1))"
proof -
  let ?data = "[mk_result ''a'' ''Hijau'' (Fin 3), mk_result ''b'' ''Merah'' (Fin (- 1)),
      mk_result ''c'' ''Kuning'' (Fin 4), mk_result ''d'' ''Merah'' (Fin (- 4)),
      mk_result ''e'' ''Kuning'' (Fin 2)]"
  let ?sel = "[''Merah'', ''Kuning'', ''Hijau'']"
  have e: "tab1_sorted ?data ?sel
   = [mk_result ''d'' ''Merah'' (Fin (- 4)), mk_result ''b'' ''Merah'' (Fin (- 1)),
      mk_result ''e'' ''Kuning'' (Fin 2), mk_result ''c'' ''Kuning'' (Fin 4),
      mk_result ''a'' ''Hijau'' (Fin 3)]"
    by (simp add: tab1_sorted_def Let_def row_le_def SortKey_def mk_result_def)
  have ij: "(0::nat) < 1" by simp
  have j: "1 < length (tab1_sorted ?data ?sel)" by (simp add: e)
  from C7_sorted_by_status_then_buffer [OF ij j] e ij
  show ?thesis by (simp add: mk_result_def)
qed

section \<open>Rounding of the table\<close>

lemma process_dashboard_data_table:
  assumes "process_dashboard_data df model s = (Inr tbl, s')"
  shows "\<exists>sts. length sts = length df \<and> tbl = map2 result_of (map add_columns df) sts"
proof -
  from assms obtain sts where
    a: "apply_get_status model s (map add_columns df) = (Inr sts, s')" and
    t: "tbl = map2 result_of (map add_columns df) sts"
    by (auto simp add: process_dashboard_data_def Let_def split: prod.splits sum.splits)
  from apply_get_status_length [OF a] t show ?thesis by auto
qed

lemma process_dashboard_data_nth:
  assumes "process_dashboard_data df model s = (Inr tbl, s')" and "i < length df"
  shows "\<exists>st. tbl ! i = result_of (add_columns (df ! i)) st"
proof -
  from process_dashboard_data_table [OF assms(1)] obtain sts where
    l: "length sts = length df" and t: "tbl = map2 result_of (map add_columns df) sts"
    by blast
  from l t assms(2) have "tbl ! i = result_of (add_columns (df ! i)) (sts ! i)" by simp
  then show ?thesis by blast
qed

lemma row_le_both:
  assumes "Status a = Status b"
  shows "row_le a b \<and> row_le b a \<longleftrightarrow> same_number (Buffer_Waktu_Jam a) (Buffer_Waktu_Jam b)"
  using assms fnum_le_both [of "Buffer_Waktu_Jam a" "Buffer_Waktu_Jam b"]
  by (simp add: row_le_def Let_def)

lemma shown_to_one_decimalD:
  "shown_to_one_decimal x d \<Longrightarrow> is_fin x \<Longrightarrow> \<bar>fval x\<bar> \<le> 2 ^ 1000 \<Longrightarrow>
   \<bar>fval d - fval x\<bar> \<le> 1 / 20 + (\<bar>fval x\<bar> + 1) / 2 ^ 51"
  by (simp add: shown_to_one_decimal_def)

text \<open>
  Claim C10, as stated, fails in its last part. The two rows below have the status
  \<^verbatim>\<open>'Hijau'\<close> and the buffers 1.04 and 1.0599999999999996: they agree in the first decimal
  and differ beyond it. The table shows them as 1.0 and 1.1, and the order of the sort puts
  the first strictly before the second: they do not compare as equal.
\<close>

theorem C10_counterexample:
  "first_decimal (selisih_waktu (add_columns (mk_row ''Bolt'' 6.04 1 5))) = 10 \<and>
   first_decimal (selisih_waktu (add_columns (mk_row ''Nut'' 6.06 1 5))) = 10 \<and>
   snd (process_dashboard_data [mk_row ''Bolt'' 6.04 1 5, mk_row ''Nut'' 6.06 1 5]
          (stub_const ''Hijau'') 0) = 2 \<and>
   map Status (projr (fst (process_dashboard_data
          [mk_row ''Bolt'' 6.04 1 5, mk_row ''Nut'' 6.06 1 5] (stub_const ''Hijau'') 0)))
     = [''Hijau'', ''Hijau''] \<and>
   map Buffer_Waktu_Jam (projr (fst (process_dashboard_data
          [mk_row ''Bolt'' 6.04 1 5, mk_row ''Nut'' 6.06 1 5] (stub_const ''Hijau'') 0)))
     = [Fin 1, round_dbl 1.1] \<and>
   \<not> row_le
       (projr (fst (process_dashboard_data
          [mk_row ''Bolt'' 6.04 1 5, mk_row ''Nut'' 6.06 1 5] (stub_const ''Hijau'') 0)) ! 1)
       (projr (fst (process_dashboard_data
          [mk_row ''Bolt'' 6.04 1 5, mk_row ''Nut'' 6.06 1 5] (stub_const ''Hijau'') 0)) ! 0)"
  by (simp add: process_dashboard_data_def get_status_def selisih_add_columns
        waktu_habis_add_columns fields_add_columns mk_row_def stub_const_def result_of_def
        first_decimal_def row_le_def SortKey_def dbl_eval)

text \<open>
  Claim C10, amended. In the table that \<^verbatim>\<open>process_dashboard_data\<close> returns every number
  is the computed one passed through \<^verbatim>\<open>round(1)\<close>: the stock, the depletion time, the lead
  time and the buffer. What \<^verbatim>\<open>round(1)\<close> yields shows the number to one decimal: an
  infinity or NaN as it is, a finite number within one twentieth, up to the rounding error
  of the double arithmetic. The order of the sorted table compares these rounded buffers:
  two rows of the same status compare as equal exactly when their rounded buffers are the
  same number. Nothing is said of buffers that merely agree in their first decimal.
\<close>

theorem C10_table_shows_one_decimal:
  "process_dashboard_data df model s = (Inr tbl, s') \<Longrightarrow>
   length tbl = length df \<and>
   (\<forall>i<length df.
      Stok (tbl ! i) = round1 (stok_tersedia (df ! i)) \<and>
      Sisa_Waktu_Jam (tbl ! i) = round1 (waktu_habis_stok (add_columns (df ! i))) \<and>
      Lead_Time_Jam (tbl ! i) = round1 (lead_time (df ! i)) \<and>
      Buffer_Waktu_Jam (tbl ! i) = round1 (selisih_waktu (add_columns (df ! i))) \<and>
      shown_to_one_decimal (stok_tersedia (df ! i)) (Stok (tbl ! i)) \<and>
      shown_to_one_decimal (waktu_habis_stok (add_columns (df ! i))) (Sisa_Waktu_Jam (tbl ! i)) \<and>
      shown_to_one_decimal (lead_time (df ! i)) (Lead_Time_Jam (tbl ! i)) \<and>
      shown_to_one_decimal (selisih_waktu (add_columns (df ! i))) (Buffer_Waktu_Jam (tbl ! i))) \<and>
   (\<forall>i<length df. \<forall>j<length df.
      Status (tbl ! i) = Status (tbl ! j) \<longrightarrow>
        (row_le (tbl ! i) (tbl ! j) \<and> row_le (tbl ! j) (tbl ! i) \<longleftrightarrow>
         same_number (round1 (selisih_waktu (add_columns (df ! i))))
                     (round1 (selisih_waktu (add_columns (df ! j))))))"
proof -
  assume p: "process_dashboard_data df model s = (Inr tbl, s')"
  from process_dashboard_data_table [OF p] have len: "length tbl = length df"
    by auto
  have fields: "Stok (tbl ! i) = round1 (stok_tersedia (df ! i)) \<and>
      Sisa_Waktu_Jam (tbl ! i) = round1 (waktu_habis_stok (add_columns (df ! i))) \<and>
      Lead_Time_Jam (tbl ! i) = round1 (lead_time (df ! i)) \<and>
      Buffer_Waktu_Jam (tbl ! i) = round1 (selisih_waktu (add_columns (df ! i)))"
    if "i < length df" for i
  proof -
    from process_dashboard_data_nth [OF p that] obtain st where
      "tbl ! i = result_of (add_columns (df ! i)) st" by blast
    then show ?thesis by (simp add: result_of_def fields_add_columns)
  qed
  have shown: "shown_to_one_decimal (stok_tersedia (df ! i)) (Stok (tbl ! i)) \<and>
      shown_to_one_decimal (waktu_habis_stok (add_columns (df ! i))) (Sisa_Waktu_Jam (tbl ! i)) \<and>
      shown_to_one_decimal (lead_time (df ! i)) (Lead_Time_Jam (tbl ! i)) \<and>
      shown_to_one_decimal (selisih_waktu (add_columns (df ! i))) (Buffer_Waktu_Jam (tbl ! i))"
    if "i < length df" for i
    using fields [OF that] by (simp add: shown_round1)
  have ties: "row_le (tbl ! i) (tbl ! j) \<and> row_le (tbl ! j) (tbl ! i) \<longleftrightarrow>
         same_number (round1 (selisih_waktu (add_columns (df ! i))))
                     (round1 (selisih_waktu (add_columns (df ! j))))"
    if "i < length df" and "j < length df" and "Status (tbl ! i) = Status (tbl ! j)" for i j
    using row_le_both [OF that(3)] fields [OF that(1)] fields [OF that(2)] by simp
  from len fields shown ties show ?thesis by blast
qed

theorem C10_witness:
  "(let df = [mk_row ''Bolt'' 6.01 1 5, mk_row ''Nut'' 6.04 1 5, mk_row ''Pin'' 6.35 1 5];
        tbl = map2 result_of (map add_columns df) [''Hijau'', ''Hijau'', ''Hijau'']
    in process_dashboard_data df (stub_const ''Hijau'') 0 = (Inr tbl, 3) \<and>
       map Buffer_Waktu_Jam tbl = [Fin 1, Fin 1, round_dbl 1.3] \<and>
       map Stok tbl = [Fin 6, Fin 6, round_dbl 6.4] \<and>
       selisih_waktu (add_columns (df ! 0)) \<noteq> selisih_waktu (add_columns (df ! 1)) \<and>
       row_le (tbl ! 0) (tbl ! 1) \<and> row_le (tbl ! 1) (tbl ! 0) \<and>
       \<bar>fval (selisih_waktu (add_columns (df ! 2)))\<bar> \<le> 2 ^ 1000 \<and>
       \<bar>fval (Buffer_Waktu_Jam (tbl ! 2)) - fval (selisih_waktu (add_columns (df ! 2)))\<bar>
         \<le> 1 / 20 + (\<bar>fval (selisih_waktu (add_columns (df ! 2)))\<bar> + 1) / 2 ^ 51)"
proof -
  let ?df = "[mk_row ''Bolt'' 6.01 1 5, mk_row ''Nut'' 6.04 1 5, mk_row ''Pin'' 6.35 1 5]"
  let ?tbl = "map2 result_of (map add_columns ?df) [''Hijau'', ''Hijau'', ''Hijau'']"
  have b0: "selisih_waktu (add_columns (mk_row ''Bolt'' 6.01 1 5)) = Fin (568579452955525 / 562949953421312)"
    by (simp add: selisih_add_columns mk_row_def dbl_eval)
  have b1: "selisih_waktu (add_columns (mk_row ''Nut'' 6.04 1 5)) = Fin (1170935903116329 / 1125899906842624)"
    by (simp add: selisih_add_columns mk_row_def dbl_eval)
  have b2: "selisih_waktu (add_columns (mk_row ''Pin'' 6.35 1 5)) = Fin (759982437118771 / 562949953421312)"
    by (simp add: selisih_add_columns mk_row_def dbl_eval)
  have p: "process_dashboard_data ?df (stub_const ''Hijau'') 0 = (Inr ?tbl, 3)"
    using b0 b1 b2
    by (simp add: process_dashboard_data_def get_status_def stub_const_def)
  have r0: "round1 (Fin (568579452955525 / 562949953421312)) = Fin 1"
    by (simp add: dbl_eval)
  have r1: "round1 (Fin (1170935903116329 / 1125899906842624)) = Fin 1"
    by (simp add: dbl_eval)
  have r2: "round1 (Fin (759982437118771 / 562949953421312)) = round_dbl 1.3"
    by (simp add: dbl_eval)
  have st: "map Stok ?tbl = [Fin 6, Fin 6, round_dbl 6.4]"
    by (simp add: result_of_def fields_add_columns mk_row_def dbl_eval)
  have bf: "map Buffer_Waktu_Jam ?tbl = [Fin 1, Fin 1, round_dbl 1.3]"
    using b0 b1 b2 r0 r1 r2 by (simp add: result_of_def)
  have s: "Status (?tbl ! 0) = Status (?tbl ! 1)"
    by (simp add: result_of_def)
  note t = C10_table_shows_one_decimal [OF p]
  note tie = t [THEN conjunct2, THEN conjunct2, rule_format, of 0 1]
  note fld = t [THEN conjunct2, THEN conjunct1, rule_format, of 2]
  from tie s b0 b1 r0 r1
  have le: "row_le (?tbl ! 0) (?tbl ! 1) \<and> row_le (?tbl ! 1) (?tbl ! 0)"
    by (simp add: same_number_def)
  have i2: "(2::nat) < length ?df" by simp
  note sh = fld [OF i2, THEN conjunct2, THEN conjunct2, THEN conjunct2, THEN conjunct2,
                 THEN conjunct2, THEN conjunct2, THEN conjunct2]
  have fin: "is_fin (selisih_waktu (add_columns (?df ! 2)))"
    using b2 by simp
  have big: "\<bar>fval (selisih_waktu (add_columns (?df ! 2)))\<bar> \<le> 2 ^ 1000"
    using b2 by simp
  have err: "\<bar>fval (Buffer_Waktu_Jam (?tbl ! 2)) - fval (selisih_waktu (add_columns (?df ! 2)))\<bar>
         \<le> 1 / 20 + (\<bar>fval (selisih_waktu (add_columns (?df ! 2)))\<bar> + 1) / 2 ^ 51"
    by (rule shown_to_one_decimalD [OF sh fin big])
  have ne: "selisih_waktu (add_columns (?df ! 0)) \<noteq> selisih_waktu (add_columns (?df ! 1))"
    using b0 b1 by simp
  from p bf st ne le big err show ?thesis
    unfolding Let_def by blast
qed

end
